theory Spec2Isabelle
  imports Main "HOL-Library.AList" "HOL-Library.Char_ord" "HOL-Library.List_Lexorder"
    "HOL-Library.Monad_Syntax" "HOL-Library.Multiset"
begin

section \<open>Dynamic values\<close>

text \<open>
  The dashboard payload and the operands of the formatter are Go values of type
  \<^verbatim>\<open>interface{}\<close>: what \<^verbatim>\<open>json.Unmarshal\<close> produces (nil, bool, float64, string,
  \<^verbatim>\<open>[]interface{}\<close>, \<^verbatim>\<open>map[string]interface{}\<close>) and the integers that
  \<^verbatim>\<open>simplejson.Set\<close> stores. A float64 is kept abstract (type parameter \<open>'f\<close>).
  A Go map is an association list; its order is not observable by the code modelled here,
  which reads a map by key lookup, by its length, or through \<open>sortedKeys\<close>; the one place
  that ranges over a map directly (\<open>Printer.Format\<close>) is modelled over an explicit store.
\<close>

datatype 'f val =
    VNil
  | VBool bool
  | VFloat64 'f
  | VInt int
  | VInt64 int
  | VString string
  | VSlice "'f val list"
  | VMap "(string \<times> 'f val) list"

text \<open>A map literal is well formed when no key occurs twice, at every level.\<close>

fun wf_val :: "'f val \<Rightarrow> bool" where
  "wf_val (VSlice xs) = list_all wf_val xs"
| "wf_val (VMap m) = (distinct (map fst m) \<and> list_all (\<lambda>kv. wf_val (snd kv)) m)"
| "wf_val _ = True"

text \<open>\<^verbatim>\<open>m[key]\<close>: the value under the key, nil when the key is absent.\<close>

definition map_index :: "(string \<times> 'f val) list \<Rightarrow> string \<Rightarrow> 'f val" where
  "map_index m k = (case map_of m k of None \<Rightarrow> VNil | Some v \<Rightarrow> v)"

text \<open>\<^verbatim>\<open>m[key] = v\<close>: rebinds the key in place, or adds it.\<close>

definition map_assign :: "string \<Rightarrow> 'f val \<Rightarrow> (string \<times> 'f val) list \<Rightarrow> (string \<times> 'f val) list" where
  "map_assign k v m = (if k \<in> set (map fst m) then AList.update k v m else m @ [(k, v)])"

text \<open>
  \<^verbatim>\<open>simplejson.Json.Set\<close> (package \<^verbatim>\<open>pkg/components/simplejson\<close>): it assigns the key when
  the wrapped value is a map and does nothing otherwise.
\<close>

definition json_Set :: "string \<Rightarrow> 'f val \<Rightarrow> 'f val \<Rightarrow> 'f val" where
  "json_Set k v j = (case j of VMap m \<Rightarrow> VMap (map_assign k v m) | _ \<Rightarrow> j)"

section \<open>Errors\<close>

text \<open>
  The package errors of \<^verbatim>\<open>sqlstore\<close> and \<^verbatim>\<open>models\<close>, the errors the formatter builds with
  \<^verbatim>\<open>errors.New\<close> and \<^verbatim>\<open>fmt.Errorf\<close> (by their message), and whatever the store reports.
\<close>

datatype error =
    ErrUnsupportedDiffType
  | ErrDashboardVersionNotFound
  | ErrDashboardNotFound
  | ErrNoVersionsForDashboardId
  | ErrorString string
  | StoreError string

section \<open>The version store\<close>

text \<open>
  Rows of the tables \<^verbatim>\<open>dashboard\<close> and \<^verbatim>\<open>dashboard_version\<close>, with the fields the code
  reads and writes (field names prefixed \<open>d_\<close> and \<open>v_\<close>). Times are instants on some
  integer scale.
\<close>

record 'f Dashboard =
  d_Id :: int
  d_Version :: int
  d_Updated :: int
  d_UpdatedBy :: int
  d_Data :: "'f val"

record 'f DashboardVersion =
  v_DashboardId :: int
  v_ParentVersion :: int
  v_RestoredFrom :: int
  v_Version :: int
  v_Created :: int
  v_CreatedBy :: int
  v_Message :: string
  v_Data :: "'f val"

record 'f store =
  dashboards :: "'f Dashboard list"
  dashboard_versions :: "'f DashboardVersion list"

text \<open>
  The queries the code sends through the engine \<^verbatim>\<open>x\<close> and the session \<^verbatim>\<open>sess\<close>. A read
  answers \<open>Inl err\<close>, or \<open>Inr None\<close> when no row comes back (\<^verbatim>\<open>has == false\<close>), or the
  row. On this store a read never fails; the branches of the code for a failing read
  are kept in the functions below.
\<close>

definition Get_version :: "'f store \<Rightarrow> int \<Rightarrow> int \<Rightarrow> error + 'f DashboardVersion option" where
  "Get_version s dashboardId version =
     Inr (find (\<lambda>v. v_DashboardId v = dashboardId \<and> v_Version v = version) (dashboard_versions s))"

definition Get_dashboard :: "'f store \<Rightarrow> int \<Rightarrow> error + 'f Dashboard option" where
  "Get_dashboard s dashboardId = Inr (find (\<lambda>d. d_Id d = dashboardId) (dashboards s))"

text \<open>The version numbers of a document's rows.\<close>

definition versions_of :: "'f store \<Rightarrow> int \<Rightarrow> int list" where
  "versions_of s dashboardId =
     map v_Version (filter (\<lambda>v. v_DashboardId v = dashboardId) (dashboard_versions s))"

text \<open>
  \<^verbatim>\<open>SELECT MAX(version) AS max FROM dashboard_version WHERE dashboard_id = ?\<close>, read the
  way the check \<^verbatim>\<open>!has\<close> of \<open>getMaxVersion\<close> reads it: no row comes back when the
  document has no version rows.
\<close>

definition Get_max_version :: "'f store \<Rightarrow> int \<Rightarrow> error + int option" where
  "Get_max_version s dashboardId =
     (case versions_of s dashboardId of
        [] \<Rightarrow> Inr None
      | v # vs \<Rightarrow> Inr (Some (fold max vs v)))"

text \<open>
  \<^verbatim>\<open>sess.Id(id).Update(dashboard)\<close>: the rows with that id are overwritten; the number of
  rows matched comes back.
\<close>

definition Update_dashboard :: "'f store \<Rightarrow> int \<Rightarrow> 'f Dashboard \<Rightarrow> error + (int \<times> 'f store)" where
  "Update_dashboard s ident d =
     Inr (int (length (filter (\<lambda>r. d_Id r = ident) (dashboards s))),
          s\<lparr>dashboards := map (\<lambda>r. if d_Id r = ident then d else r) (dashboards s)\<rparr>)"

text \<open>
  \<^verbatim>\<open>sess.Insert(dashVersion)\<close>: the row is appended, unless a row of the same document
  has the same version number (the unique index on document id and version), which the
  store reports as an error of its own.
\<close>

definition Insert_version :: "'f store \<Rightarrow> 'f DashboardVersion \<Rightarrow> error + (int \<times> 'f store)" where
  "Insert_version s v =
     (if v_Version v \<in> set (versions_of s (v_DashboardId v))
      then Inl (StoreError ''UNIQUE constraint failed: dashboard_version.dashboard_id, dashboard_version.version'')
      else Inr (1, s\<lparr>dashboard_versions := dashboard_versions s @ [v]\<rparr>))"

text \<open>
  Modelled from the spec: \<^verbatim>\<open>inTransaction\<close> (package \<^verbatim>\<open>sqlstore\<close>, not among the source
  files) runs its callback in one transaction: the effects of a callback that returns an
  error are rolled back, those of one that returns nil are committed.
\<close>

definition inTransaction :: "('s \<Rightarrow> error + ('a \<times> 's)) \<Rightarrow> 's \<Rightarrow> (error + 'a) \<times> 's" where
  "inTransaction callback s =
     (case callback s of
        Inl err \<Rightarrow> (Inl err, s)
      | Inr (r, s') \<Rightarrow> (Inr r, s'))"

subsection \<open>getMaxVersion\<close>

text \<open>Go's \<^verbatim>\<open>v.Max++\<close> on a 64-bit \<^verbatim>\<open>int\<close>: the largest value wraps to the smallest.\<close>

definition int_incr :: "int \<Rightarrow> int" where
  "int_incr n = (if n = 9223372036854775807 then - 9223372036854775808 else n + 1)"

text \<open>
  The check \<^verbatim>\<open>!has\<close> comes before the check of \<^verbatim>\<open>err\<close>, and a failed read has
  \<^verbatim>\<open>has == false\<close>: a failed read is reported as \<open>ErrDashboardNotFound\<close> too.
\<close>

definition getMaxVersion :: "'f store \<Rightarrow> int \<Rightarrow> error + int" where
  "getMaxVersion sess dashboardId =
     (case Get_max_version sess dashboardId of
        Inl err \<Rightarrow> Inl ErrDashboardNotFound
      | Inr None \<Rightarrow> Inl ErrDashboardNotFound
      | Inr (Some mx) \<Rightarrow> Inr (int_incr mx))"

subsection \<open>Reading a version and the live dashboard\<close>

text \<open>
  \<open>getDashboardVersion\<close> fetches the row of a document's version and writes the document
  id into its payload under \<open>''id''\<close>.
\<close>

definition getDashboardVersion :: "'f store \<Rightarrow> int \<Rightarrow> int \<Rightarrow> error + 'f DashboardVersion" where
  "getDashboardVersion x dashboardId version =
     (case Get_version x dashboardId version of
        Inl err \<Rightarrow> Inl err
      | Inr None \<Rightarrow> Inl ErrDashboardVersionNotFound
      | Inr (Some dashboardVersion) \<Rightarrow>
          Inr (dashboardVersion\<lparr>v_Data :=
                 json_Set ''id'' (VInt64 (v_DashboardId dashboardVersion)) (v_Data dashboardVersion)\<rparr>))"

definition getDashboard :: "'f store \<Rightarrow> int \<Rightarrow> error + 'f Dashboard" where
  "getDashboard x dashboardId =
     (case Get_dashboard x dashboardId of
        Inl err \<Rightarrow> Inl err
      | Inr None \<Rightarrow> Inl ErrDashboardNotFound
      | Inr (Some dashboard) \<Rightarrow> Inr dashboard)"

subsection \<open>RestoreDashboardVersion\<close>

record RestoreDashboardVersionCommand =
  r_DashboardId :: int
  r_Version :: int
  r_UserId :: int

text \<open>
  The last step of the callback (from \<^verbatim>\<open>sess.Id(dashboard.Id).Update(dashboard)\<close> to the
  end): the live row is updated, the new version row is built and inserted, and the
  dashboard is the result. \<open>created\<close> is the second reading of the clock.
\<close>

definition updateAndInsert ::
  "int \<Rightarrow> RestoreDashboardVersionCommand \<Rightarrow> 'f Dashboard \<Rightarrow> 'f store \<Rightarrow> error + ('f Dashboard \<times> 'f store)" where
  "updateAndInsert created cmd dashboard sess =
     (case Update_dashboard sess (d_Id dashboard) dashboard of
        Inl err \<Rightarrow> Inl err
      | Inr (affectedRows, sess1) \<Rightarrow>
          if affectedRows = 0 then Inl ErrDashboardNotFound
          else
            let dashVersion =
                  \<lparr>v_DashboardId = d_Id dashboard,
                   v_ParentVersion = r_Version cmd,
                   v_RestoredFrom = r_Version cmd,
                   v_Version = d_Version dashboard,
                   v_Created = created,
                   v_CreatedBy = d_UpdatedBy dashboard,
                   v_Message = [],
                   v_Data = d_Data dashboard\<rparr>
            in (case Insert_version sess1 dashVersion of
                  Inl err \<Rightarrow> Inl err
                | Inr (affectedRows, sess2) \<Rightarrow>
                    if affectedRows = 0 then Inl ErrDashboardNotFound
                    else Inr (dashboard, sess2)))"

text \<open>
  The callback that \<open>RestoreDashboardVersion\<close> hands to \<open>inTransaction\<close>. \<open>clock\<close> holds
  the two readings of \<^verbatim>\<open>time.Now()\<close>.
\<close>

definition restoreCallback ::
  "int \<times> int \<Rightarrow> RestoreDashboardVersionCommand \<Rightarrow> 'f store \<Rightarrow> error + ('f Dashboard \<times> 'f store)" where
  "restoreCallback clock cmd sess =
     (case getDashboardVersion sess (r_DashboardId cmd) (r_Version cmd) of
        Inl err \<Rightarrow> Inl err
      | Inr dashboardVersion \<Rightarrow>
     (case getDashboard sess (r_DashboardId cmd) of
        Inl err \<Rightarrow> Inl err
      | Inr dashboard \<Rightarrow>
     (case getMaxVersion sess (d_Id dashboard) of
        Inl err \<Rightarrow> Inl err
      | Inr version \<Rightarrow>
          let dashboard = dashboard\<lparr>d_Data := v_Data dashboardVersion\<rparr>;
              dashboard = dashboard\<lparr>d_Updated := fst clock\<rparr>;
              dashboard = dashboard\<lparr>d_UpdatedBy := r_UserId cmd\<rparr>;
              dashboard = dashboard\<lparr>d_Version := version\<rparr>;
              dashboard = dashboard\<lparr>d_Data := json_Set ''version'' (VInt (d_Version dashboard)) (d_Data dashboard)\<rparr>;
              dashboard = dashboard\<lparr>d_Data := json_Set ''restoredFrom'' (VInt (r_Version cmd)) (d_Data dashboard)\<rparr>
          in updateAndInsert (snd clock) cmd dashboard sess)))"

definition RestoreDashboardVersion ::
  "int \<times> int \<Rightarrow> RestoreDashboardVersionCommand \<Rightarrow> 'f store \<Rightarrow> (error + 'f Dashboard) \<times> 'f store" where
  "RestoreDashboardVersion clock cmd s = inTransaction (restoreCallback clock cmd) s"

subsection \<open>The failure classes of the specification\<close>

text \<open>
  The specification sorts failures into not-found (a version, a document, an empty list
  of versions), conflict (a concurrent write detected at the store boundary), unsupported
  format and type mismatch. \<open>failure_class\<close> sorts the errors of the code that way,
  counting every error the store itself reports as a conflict.
\<close>

datatype failure = NotFound | Conflict | UnsupportedFormat | TypeMismatch | Unclassified

fun failure_class :: "error \<Rightarrow> failure" where
  "failure_class ErrDashboardVersionNotFound = NotFound"
| "failure_class ErrDashboardNotFound = NotFound"
| "failure_class ErrNoVersionsForDashboardId = NotFound"
| "failure_class ErrUnsupportedDiffType = UnsupportedFormat"
| "failure_class (StoreError msg) = Conflict"
| "failure_class (ErrorString msg) = (if msg = ''Type mismatch'' then TypeMismatch else Unclassified)"

subsection \<open>Example stores\<close>

definition store_7 :: "unit store" where
  "store_7 =
     \<lparr>dashboards =
        [\<lparr>d_Id = 7, d_Version = 3, d_Updated = 100, d_UpdatedBy = 1,
          d_Data = VMap [(''title'', VString ''c''), (''version'', VInt 3)]\<rparr>],
      dashboard_versions =
        [\<lparr>v_DashboardId = 7, v_ParentVersion = 0, v_RestoredFrom = 0, v_Version = 1,
          v_Created = 10, v_CreatedBy = 1, v_Message = ''first'',
          v_Data = VMap [(''title'', VString ''a''), (''version'', VInt 1)]\<rparr>,
         \<lparr>v_DashboardId = 7, v_ParentVersion = 1, v_RestoredFrom = 0, v_Version = 3,
          v_Created = 20, v_CreatedBy = 1, v_Message = ''third'',
          v_Data = VMap [(''title'', VString ''c''), (''version'', VInt 3)]\<rparr>,
         \<lparr>v_DashboardId = 7, v_ParentVersion = 1, v_RestoredFrom = 0, v_Version = 2,
          v_Created = 15, v_CreatedBy = 2, v_Message = ''second'',
          v_Data = VMap [(''title'', VString ''b''), (''version'', VInt 2)]\<rparr>]\<rparr>"

definition cmd_7_1 :: RestoreDashboardVersionCommand where
  "cmd_7_1 = \<lparr>r_DashboardId = 7, r_Version = 1, r_UserId = 9\<rparr>"

definition dashboard_8 :: "unit Dashboard" where
  "dashboard_8 = \<lparr>d_Id = 8, d_Version = 2, d_Updated = 200, d_UpdatedBy = 9, d_Data = VMap []\<rparr>"

definition dashboard_7_dup :: "unit Dashboard" where
  "dashboard_7_dup = \<lparr>d_Id = 7, d_Version = 2, d_Updated = 200, d_UpdatedBy = 9, d_Data = VMap []\<rparr>"

section \<open>The delta model\<close>

text \<open>
  The deltas of \<^verbatim>\<open>gojsondiff\<close> that the formatters switch over, each with its position:
  the name of an object member or the index of an array element.
\<close>

datatype position = Name string | Index int

datatype 'f delta =
    Object position "'f delta list"
  | Array position "'f delta list"
  | Added position "'f val"
  | Modified position "'f val" "'f val"
  | TextDiff position "'f val" "'f val"
  | Deleted position "'f val"
  | Moved position position "'f val"

definition dquote :: char where "dquote = CHR 0x22"
definition newline :: char where "newline = CHR 0x0A"

text \<open>\<^verbatim>\<open>strconv.Itoa\<close>.\<close>

fun digits :: "nat \<Rightarrow> string" where
  "digits n = (if n < 10 then [''0123456789'' ! n] else digits (n div 10) @ [''0123456789'' ! (n mod 10)])"

declare digits.simps [simp del]

definition Itoa :: "int \<Rightarrow> string" where
  "Itoa i = (if i < 0 then CHR ''-'' # digits (nat (- i)) else digits (nat i))"

fun position_String :: "position \<Rightarrow> string" where
  "position_String (Name n) = n"
| "position_String (Index i) = Itoa i"

text \<open>
  \<open>PostPosition\<close> is the position of a delta that is a \<^verbatim>\<open>PostDelta\<close>, \<open>PrePosition\<close>
  that of a \<^verbatim>\<open>PreDelta\<close>; a \<open>Moved\<close> delta is both (from its first position to its
  second).
\<close>

fun PostPosition :: "'f delta \<Rightarrow> position option" where
  "PostPosition (Object p ds) = Some p"
| "PostPosition (Array p ds) = Some p"
| "PostPosition (Added p v) = Some p"
| "PostPosition (Modified p old new) = Some p"
| "PostPosition (TextDiff p old new) = Some p"
| "PostPosition (Deleted p v) = None"
| "PostPosition (Moved pre post v) = Some post"

fun PrePosition :: "'f delta \<Rightarrow> position option" where
  "PrePosition (Deleted p v) = Some p"
| "PrePosition (Moved pre post v) = Some pre"
| "PrePosition _ = None"

section \<open>The ASCII formatter\<close>

record AsciiFormatterConfig =
  ShowArrayIndex :: bool
  Coloring :: bool

record AsciiLine =
  l_marker :: string
  l_indent :: nat
  l_buffer :: string

text \<open>
  The formatter's fields (prefixed \<open>f_\<close>). The stacks \<open>path\<close>, \<open>size\<close> and \<open>inArray\<close>
  grow at the end, as the slices of the source do; \<open>line\<close> is a pointer, nil until the
  first line is opened. A function that would panic (an index or a slice bound out of
  range, a nil line) returns \<open>None\<close>.
\<close>

record 'f AsciiFormatter =
  f_left :: "'f val"
  f_config :: AsciiFormatterConfig
  f_buffer :: string
  f_path :: "string list"
  f_size :: "int list"
  f_inArray :: "bool list"
  f_line :: "AsciiLine option"

definition NewAsciiFormatter :: "'f val \<Rightarrow> AsciiFormatterConfig \<Rightarrow> 'f AsciiFormatter" where
  "NewAsciiFormatter left config =
     \<lparr>f_left = left, f_config = config, f_buffer = [], f_path = [], f_size = [],
      f_inArray = [], f_line = None\<rparr>"

definition AsciiFormatterDefaultConfig :: AsciiFormatterConfig where
  "AsciiFormatterDefaultConfig = \<lparr>ShowArrayIndex = False, Coloring = False\<rparr>"

definition AsciiSame :: string where "AsciiSame = '' ''"
definition AsciiAdded :: string where "AsciiAdded = ''+''"
definition AsciiDeleted :: string where "AsciiDeleted = ''-''"

definition AsciiStyles :: "string \<Rightarrow> string option" where
  "AsciiStyles = map_of [(AsciiAdded, ''diff-added''), (AsciiDeleted, ''diff-deleted'')]"

definition push :: "string \<Rightarrow> int \<Rightarrow> bool \<Rightarrow> 'f AsciiFormatter \<Rightarrow> 'f AsciiFormatter" where
  "push name sz array f =
     f\<lparr>f_path := f_path f @ [name], f_size := f_size f @ [sz], f_inArray := f_inArray f @ [array]\<rparr>"

definition pop :: "'f AsciiFormatter \<Rightarrow> 'f AsciiFormatter option" where
  "pop f =
     (if f_path f = [] \<or> f_size f = [] \<or> f_inArray f = [] then None
      else Some (f\<lparr>f_path := butlast (f_path f), f_size := butlast (f_size f),
                   f_inArray := butlast (f_inArray f)\<rparr>))"

definition closeLine :: "'f AsciiFormatter \<Rightarrow> 'f AsciiFormatter option" where
  "closeLine f =
     (case f_line f of
        None \<Rightarrow> None
      | Some line \<Rightarrow>
          let style = (if Coloring (f_config f) then AsciiStyles (l_marker line) else None);
              b = f_buffer f;
              b = (case style of Some st \<Rightarrow> b @ ''<span class='' @ [dquote] @ st @ [dquote] @ ''>'' | None \<Rightarrow> b);
              b = b @ l_marker line;
              b = b @ concat (replicate (l_indent line) ''  '');
              b = b @ l_buffer line;
              b = (case style of Some st \<Rightarrow> b @ ''</span>'' | None \<Rightarrow> b);
              b = b @ [newline]
          in Some (f\<lparr>f_buffer := b\<rparr>))"

definition addLineWith :: "string \<Rightarrow> string \<Rightarrow> 'f AsciiFormatter \<Rightarrow> 'f AsciiFormatter option" where
  "addLineWith marker v f =
     closeLine (f\<lparr>f_line := Some \<lparr>l_marker = marker, l_indent = length (f_path f), l_buffer = v\<rparr>\<rparr>)"

definition newLine :: "string \<Rightarrow> 'f AsciiFormatter \<Rightarrow> 'f AsciiFormatter option" where
  "newLine marker f =
     Some (f\<lparr>f_line := Some \<lparr>l_marker = marker, l_indent = length (f_path f), l_buffer = []\<rparr>\<rparr>)"

text \<open>Writing to the buffer of the current line.\<close>

definition print :: "string \<Rightarrow> 'f AsciiFormatter \<Rightarrow> 'f AsciiFormatter option" where
  "print a f =
     (case f_line f of
        None \<Rightarrow> None
      | Some line \<Rightarrow> Some (f\<lparr>f_line := Some (line\<lparr>l_buffer := l_buffer line @ a\<rparr>)\<rparr>))"

definition printKey :: "string \<Rightarrow> 'f AsciiFormatter \<Rightarrow> 'f AsciiFormatter option" where
  "printKey name f =
     (if f_inArray f = [] then None
      else if \<not> last (f_inArray f) then print ([dquote] @ name @ [dquote] @ '': '') f
      else if ShowArrayIndex (f_config f) then print (name @ '': '') f
      else Some f)"

definition printComma :: "'f AsciiFormatter \<Rightarrow> 'f AsciiFormatter option" where
  "printComma f =
     (if f_size f = [] then None
      else
        let f = f\<lparr>f_size := butlast (f_size f) @ [last (f_size f) - 1]\<rparr>
        in if last (f_size f) > 0 then print '','' f else Some f)"

text \<open>
  \<open>gosyntax\<close> stands for \<^verbatim>\<open>fmt\<close>'s verb \<^verbatim>\<open>%#v\<close>, which prints every value that is
  neither a string nor nil.
\<close>

definition printValue :: "('f val \<Rightarrow> string) \<Rightarrow> 'f val \<Rightarrow> 'f AsciiFormatter \<Rightarrow> 'f AsciiFormatter option" where
  "printValue gosyntax v f =
     (case v of
        VString s \<Rightarrow> print ([dquote] @ s @ [dquote]) f
      | VNil \<Rightarrow> print ''null'' f
      | _ \<Rightarrow> print (gosyntax v) f)"

text \<open>\<^verbatim>\<open>sort.Strings\<close> orders strings bytewise.\<close>

definition sortedKeys :: "(string \<times> 'f val) list \<Rightarrow> string list" where
  "sortedKeys m = sort (map fst m)"

lemma size_map_index: "size (map_index m k) \<le> Suc (size_list (size_prod (\<lambda>_. 0) size) m)"
proof (induction m)
  case Nil
  show ?case by (simp add: map_index_def)
next
  case (Cons a m)
  then show ?case by (cases a) (auto simp: map_index_def split: option.splits)
qed

function printRecursive ::
    "('f val \<Rightarrow> string) \<Rightarrow> string \<Rightarrow> 'f val \<Rightarrow> string \<Rightarrow> 'f AsciiFormatter \<Rightarrow> 'f AsciiFormatter option"
  and printRecursive_keys ::
    "('f val \<Rightarrow> string) \<Rightarrow> string list \<Rightarrow> (string \<times> 'f val) list \<Rightarrow> string \<Rightarrow> 'f AsciiFormatter \<Rightarrow> 'f AsciiFormatter option"
  and printRecursive_items ::
    "('f val \<Rightarrow> string) \<Rightarrow> 'f val list \<Rightarrow> string \<Rightarrow> 'f AsciiFormatter \<Rightarrow> 'f AsciiFormatter option"
where
  "printRecursive gosyntax name v marker f =
     (case v of
        VMap m \<Rightarrow> do {
          f \<leftarrow> newLine marker f;
          f \<leftarrow> printKey name f;
          f \<leftarrow> print ''{'' f;
          f \<leftarrow> closeLine f;
          f \<leftarrow> Some (push name (int (length m)) False f);
          f \<leftarrow> printRecursive_keys gosyntax (sortedKeys m) m marker f;
          f \<leftarrow> pop f;
          f \<leftarrow> newLine marker f;
          f \<leftarrow> print ''}'' f;
          f \<leftarrow> printComma f;
          closeLine f
        }
      | VSlice s \<Rightarrow> do {
          f \<leftarrow> newLine marker f;
          f \<leftarrow> printKey name f;
          f \<leftarrow> print ''['' f;
          f \<leftarrow> closeLine f;
          f \<leftarrow> Some (push [] (int (length s)) True f);
          f \<leftarrow> printRecursive_items gosyntax s marker f;
          f \<leftarrow> pop f;
          f \<leftarrow> newLine marker f;
          f \<leftarrow> print '']'' f;
          f \<leftarrow> printComma f;
          closeLine f
        }
      | _ \<Rightarrow> do {
          f \<leftarrow> newLine marker f;
          f \<leftarrow> printKey name f;
          f \<leftarrow> printValue gosyntax v f;
          f \<leftarrow> printComma f;
          closeLine f
        })"
| "printRecursive_keys gosyntax [] m marker f = Some f"
| "printRecursive_keys gosyntax (key # keys) m marker f = do {
     f \<leftarrow> printRecursive gosyntax key (map_index m key) marker f;
     printRecursive_keys gosyntax keys m marker f
   }"
| "printRecursive_items gosyntax [] marker f = Some f"
| "printRecursive_items gosyntax (item # items) marker f = do {
     f \<leftarrow> printRecursive gosyntax [] item marker f;
     printRecursive_items gosyntax items marker f
   }"
  by pat_completeness auto
termination
proof (relation "measures
        [\<lambda>x. case x of
               Inl (g, n, v, mk, f) \<Rightarrow> 3 * size v + (case v of VMap m \<Rightarrow> 2 | VSlice s \<Rightarrow> 2 | _ \<Rightarrow> 0)
             | Inr (Inl (g, ks, m, mk, f)) \<Rightarrow> 3 * size (VMap m) + 1
             | Inr (Inr (g, xs, mk, f)) \<Rightarrow> 3 * size (VSlice xs) + 1,
         \<lambda>x. case x of
               Inl (g, n, v, mk, f) \<Rightarrow> 0
             | Inr (Inl (g, ks, m, mk, f)) \<Rightarrow> length ks
             | Inr (Inr (g, xs, mk, f)) \<Rightarrow> 0]", goal_cases)
  case 1
  show ?case by simp
next
  case (2 gosyntax name v marker f m)
  then show ?case by simp
next
  case (3 gosyntax name v marker f s)
  then show ?case by simp
next
  case (4 gosyntax key keys m marker f)
  have "size (map_index m key) \<le> Suc (size_list (size_prod (\<lambda>_. 0) size) m)"
    by (rule size_map_index)
  moreover have "size (map_index m key) < Suc (size_list (size_prod (\<lambda>_. 0) size) m)
      \<or> (\<forall>m'. map_index m key \<noteq> VMap m') \<and> (\<forall>s'. map_index m key \<noteq> VSlice s')"
  proof (induction m)
    case Nil
    show ?case by (simp add: map_index_def)
  next
    case (Cons a m)
    then show ?case by (cases a) (auto simp: map_index_def split: option.splits)
  qed
  ultimately show ?case
    by (auto split: val.splits)
next
  case (5 gosyntax key keys m marker f)
  then show ?case by simp
next
  case (6 gosyntax item items marker f)
  then show ?case by (simp split: val.splits)
next
  case (7 gosyntax item items marker f)
  then show ?case by simp
qed


declare printRecursive.simps [simp del]

text \<open>
  \<open>searchDeltas\<close> keeps, in order, the deltas at a position: a \<^verbatim>\<open>PostDelta\<close> is matched
  on its post position, any other delta on its pre position. (Every delta is one or the
  other, so the panic of the last branch cannot happen.)
\<close>

definition searchDeltas :: "'f delta list \<Rightarrow> position \<Rightarrow> 'f delta list" where
  "searchDeltas deltas postion =
     filter (\<lambda>delta. case PostPosition delta of
                        Some p \<Rightarrow> p = postion
                      | None \<Rightarrow> PrePosition delta = Some postion) deltas"

text \<open>
  The second loop of \<open>processObject\<close>: every \<open>Added\<close> delta of the level is printed.
\<close>

fun processObject_added ::
  "('f val \<Rightarrow> string) \<Rightarrow> 'f delta list \<Rightarrow> 'f AsciiFormatter \<Rightarrow> 'f AsciiFormatter option" where
  "processObject_added gosyntax [] f = Some f"
| "processObject_added gosyntax (delta # deltas) f =
     (case delta of
        Added p v \<Rightarrow> do {
          f \<leftarrow> printRecursive gosyntax (position_String p) v AsciiAdded f;
          processObject_added gosyntax deltas f
        }
      | _ \<Rightarrow> processObject_added gosyntax deltas f)"

text \<open>
  The second loop of \<open>processArray\<close>: the \<open>Added\<close> deltas at indices past the end of the
  array are printed. The type assertion \<^verbatim>\<open>d.Position.(diff.Index)\<close> panics on a name.
\<close>

fun processArray_added ::
  "('f val \<Rightarrow> string) \<Rightarrow> 'f val list \<Rightarrow> 'f delta list \<Rightarrow> 'f AsciiFormatter \<Rightarrow> 'f AsciiFormatter option" where
  "processArray_added gosyntax array [] f = Some f"
| "processArray_added gosyntax array (delta # deltas) f =
     (case delta of
        Added p v \<Rightarrow>
          (case p of
             Name n \<Rightarrow> None
           | Index i \<Rightarrow>
               if i < int (length array) then processArray_added gosyntax array deltas f
               else do {
                 f \<leftarrow> printRecursive gosyntax (position_String p) v AsciiAdded f;
                 processArray_added gosyntax array deltas f
               })
      | _ \<Rightarrow> processArray_added gosyntax array deltas f)"

text \<open>\<^verbatim>\<open>f.size[len(f.size)-1]\<close>, read and written.\<close>

definition size_top :: "'f AsciiFormatter \<Rightarrow> int option" where
  "size_top f = (if f_size f = [] then None else Some (last (f_size f)))"

definition set_size_top :: "int \<Rightarrow> 'f AsciiFormatter \<Rightarrow> 'f AsciiFormatter option" where
  "set_size_top n f =
     (if f_size f = [] then None else Some (f\<lparr>f_size := butlast (f_size f) @ [n]\<rparr>))"

lemma size_searchDeltas: "size_list size (searchDeltas deltas p) \<le> size_list size deltas"
  unfolding searchDeltas_def by (induction deltas) auto

lemma size_searchDeltas_less:
  "size_list size (searchDeltas deltas p) \<noteq> size_list size deltas \<Longrightarrow>
   size_list size (searchDeltas deltas p) < size_list size deltas"
  using size_searchDeltas [of deltas p] by simp

text \<open>
  \<open>processItem\<close> and the loops around it. The result of \<open>processItem\<close> is its error and
  the formatter as it stands at the return; \<open>processObject\<close> and \<open>processArray\<close> drop the
  error of \<open>processItem\<close> and go on, and always return nil themselves.
  \<open>processItem_matched\<close> is the loop over the matched deltas, \<open>processObject_names\<close> the
  loop over the sorted names and \<open>processArray_items\<close> the loop over the elements.
\<close>

function processObject ::
    "('f val \<Rightarrow> string) \<Rightarrow> (string \<times> 'f val) list \<Rightarrow> 'f delta list \<Rightarrow> 'f AsciiFormatter
       \<Rightarrow> (error option \<times> 'f AsciiFormatter) option"
  and processObject_names ::
    "('f val \<Rightarrow> string) \<Rightarrow> string list \<Rightarrow> (string \<times> 'f val) list \<Rightarrow> 'f delta list \<Rightarrow> 'f AsciiFormatter
       \<Rightarrow> 'f AsciiFormatter option"
  and processArray ::
    "('f val \<Rightarrow> string) \<Rightarrow> 'f val list \<Rightarrow> 'f delta list \<Rightarrow> 'f AsciiFormatter
       \<Rightarrow> (error option \<times> 'f AsciiFormatter) option"
  and processArray_items ::
    "('f val \<Rightarrow> string) \<Rightarrow> int \<Rightarrow> 'f val list \<Rightarrow> 'f delta list \<Rightarrow> 'f AsciiFormatter
       \<Rightarrow> 'f AsciiFormatter option"
  and processItem ::
    "('f val \<Rightarrow> string) \<Rightarrow> 'f val \<Rightarrow> 'f delta list \<Rightarrow> position \<Rightarrow> 'f AsciiFormatter
       \<Rightarrow> (error option \<times> 'f AsciiFormatter) option"
  and processItem_matched ::
    "('f val \<Rightarrow> string) \<Rightarrow> 'f val \<Rightarrow> string \<Rightarrow> 'f delta list \<Rightarrow> 'f AsciiFormatter
       \<Rightarrow> (error option \<times> 'f AsciiFormatter) option"
where
  "processObject gosyntax object deltas f = do {
     f \<leftarrow> processObject_names gosyntax (sortedKeys object) object deltas f;
     f \<leftarrow> processObject_added gosyntax deltas f;
     Some (None, f)
   }"
| "processObject_names gosyntax [] object deltas f = Some f"
| "processObject_names gosyntax (name # names) object deltas f = do {
     (err, f) \<leftarrow> processItem gosyntax (map_index object name) deltas (Name name) f;
     processObject_names gosyntax names object deltas f
   }"
| "processArray gosyntax array deltas f = do {
     f \<leftarrow> processArray_items gosyntax 0 array deltas f;
     f \<leftarrow> processArray_added gosyntax array deltas f;
     Some (None, f)
   }"
| "processArray_items gosyntax index [] deltas f = Some f"
| "processArray_items gosyntax index (v # vs) deltas f = do {
     (err, f) \<leftarrow> processItem gosyntax v deltas (Index index) f;
     processArray_items gosyntax (index + 1) vs deltas f
   }"
| "processItem gosyntax v deltas position f =
     (let matchedDeltas = searchDeltas deltas position;
          positionStr = position_String position
      in if length matchedDeltas > 0
         then processItem_matched gosyntax v positionStr matchedDeltas f
         else do {
           f \<leftarrow> printRecursive gosyntax positionStr v AsciiSame f;
           Some (None, f)
         })"
| "processItem_matched gosyntax v positionStr [] f = Some (None, f)"
| "processItem_matched gosyntax v positionStr (matchedDelta # matchedDeltas) f =
     (case matchedDelta of
        Object p deltas \<Rightarrow>
          (case v of
             VMap o_map \<Rightarrow> do {
               f \<leftarrow> newLine AsciiSame f;
               f \<leftarrow> printKey positionStr f;
               f \<leftarrow> print ''{'' f;
               f \<leftarrow> closeLine f;
               f \<leftarrow> Some (push positionStr (int (length o_map)) False f);
               (err, f) \<leftarrow> processObject gosyntax o_map deltas f;
               f \<leftarrow> pop f;
               f \<leftarrow> newLine AsciiSame f;
               f \<leftarrow> print ''}'' f;
               f \<leftarrow> printComma f;
               f \<leftarrow> closeLine f;
               processItem_matched gosyntax v positionStr matchedDeltas f
             }
           | _ \<Rightarrow> Some (Some (ErrorString ''Type mismatch''), f))
      | Array p deltas \<Rightarrow>
          (case v of
             VSlice a \<Rightarrow> do {
               f \<leftarrow> newLine AsciiSame f;
               f \<leftarrow> printKey positionStr f;
               f \<leftarrow> print ''['' f;
               f \<leftarrow> closeLine f;
               f \<leftarrow> Some (push positionStr (int (length a)) True f);
               (err, f) \<leftarrow> processArray gosyntax a deltas f;
               f \<leftarrow> pop f;
               f \<leftarrow> newLine AsciiSame f;
               f \<leftarrow> print '']'' f;
               f \<leftarrow> printComma f;
               f \<leftarrow> closeLine f;
               processItem_matched gosyntax v positionStr matchedDeltas f
             }
           | _ \<Rightarrow> Some (Some (ErrorString ''Type mismatch''), f))
      | Added p added \<Rightarrow> do {
          f \<leftarrow> printRecursive gosyntax positionStr added AsciiAdded f;
          n \<leftarrow> size_top f;
          f \<leftarrow> set_size_top (n + 1) f;
          processItem_matched gosyntax v positionStr matchedDeltas f
        }
      | Modified p OldValue NewValue \<Rightarrow> do {
          savedSize \<leftarrow> size_top f;
          f \<leftarrow> printRecursive gosyntax positionStr OldValue AsciiDeleted f;
          f \<leftarrow> set_size_top savedSize f;
          f \<leftarrow> printRecursive gosyntax positionStr NewValue AsciiAdded f;
          processItem_matched gosyntax v positionStr matchedDeltas f
        }
      | TextDiff p OldValue NewValue \<Rightarrow> do {
          savedSize \<leftarrow> size_top f;
          f \<leftarrow> printRecursive gosyntax positionStr OldValue AsciiDeleted f;
          f \<leftarrow> set_size_top savedSize f;
          f \<leftarrow> printRecursive gosyntax positionStr NewValue AsciiAdded f;
          processItem_matched gosyntax v positionStr matchedDeltas f
        }
      | Deleted p deleted \<Rightarrow> do {
          f \<leftarrow> printRecursive gosyntax positionStr deleted AsciiDeleted f;
          processItem_matched gosyntax v positionStr matchedDeltas f
        }
      | Moved pre post moved \<Rightarrow> Some (Some (ErrorString ''Unknown Delta type detected''), f))"
  by pat_completeness auto
termination
  apply (relation "measures
        [\<lambda>x. case x of
               Inl (Inl (g, ob, ds, f)) \<Rightarrow> size_list size ds
             | Inl (Inr (Inl (g, ns, ob, ds, f))) \<Rightarrow> size_list size ds
             | Inl (Inr (Inr (g, ar, ds, f))) \<Rightarrow> size_list size ds
             | Inr (Inl (g, i, vs, ds, f)) \<Rightarrow> size_list size ds
             | Inr (Inr (Inl (g, v, ds, p, f))) \<Rightarrow> size_list size ds
             | Inr (Inr (Inr (g, v, ps, ms, f))) \<Rightarrow> size_list size ms,
         \<lambda>x. case x of
               Inl (Inl (g, ob, ds, f)) \<Rightarrow> 3
             | Inl (Inr (Inl (g, ns, ob, ds, f))) \<Rightarrow> 2
             | Inl (Inr (Inr (g, ar, ds, f))) \<Rightarrow> 3
             | Inr (Inl (g, i, vs, ds, f)) \<Rightarrow> 2
             | Inr (Inr (Inl (g, v, ds, p, f))) \<Rightarrow> 1
             | Inr (Inr (Inr (g, v, ps, ms, f))) \<Rightarrow> 0,
         \<lambda>x. case x of
               Inl (Inl (g, ob, ds, f)) \<Rightarrow> 0
             | Inl (Inr (Inl (g, ns, ob, ds, f))) \<Rightarrow> length ns
             | Inl (Inr (Inr (g, ar, ds, f))) \<Rightarrow> 0
             | Inr (Inl (g, i, vs, ds, f)) \<Rightarrow> length vs
             | Inr (Inr (Inl (g, v, ds, p, f))) \<Rightarrow> 0
             | Inr (Inr (Inr (g, v, ps, ms, f))) \<Rightarrow> 0]")
  apply (auto simp: size_searchDeltas_less)
  done


declare processObject.simps [simp del] processObject_names.simps [simp del]
  processArray.simps [simp del] processArray_items.simps [simp del]
  processItem.simps [simp del] processItem_matched.simps [simp del]

definition formatObject ::
  "('f val \<Rightarrow> string) \<Rightarrow> (string \<times> 'f val) list \<Rightarrow> 'f delta list \<Rightarrow> 'f AsciiFormatter \<Rightarrow> 'f AsciiFormatter option" where
  "formatObject gosyntax left df f = do {
     f \<leftarrow> addLineWith AsciiSame ''{'' f;
     f \<leftarrow> Some (push ''ROOT'' (int (length left)) False f);
     (err, f) \<leftarrow> processObject gosyntax left df f;
     f \<leftarrow> pop f;
     addLineWith AsciiSame ''}'' f
   }"

definition formatArray ::
  "('f val \<Rightarrow> string) \<Rightarrow> 'f val list \<Rightarrow> 'f delta list \<Rightarrow> 'f AsciiFormatter \<Rightarrow> 'f AsciiFormatter option" where
  "formatArray gosyntax left df f = do {
     f \<leftarrow> addLineWith AsciiSame ''['' f;
     f \<leftarrow> Some (push ''ROOT'' (int (length left)) True f);
     (err, f) \<leftarrow> processArray gosyntax left df f;
     f \<leftarrow> pop f;
     addLineWith AsciiSame '']'' f
   }"

text \<open>\<^verbatim>\<open>fmt\<close>'s verb \<^verbatim>\<open>%T\<close>: the name of the dynamic type of a value.\<close>

fun type_name :: "'f val \<Rightarrow> string" where
  "type_name VNil = ''<nil>''"
| "type_name (VBool b) = ''bool''"
| "type_name (VFloat64 x) = ''float64''"
| "type_name (VInt i) = ''int''"
| "type_name (VInt64 i) = ''int64''"
| "type_name (VString s) = ''string''"
| "type_name (VSlice xs) = ''[]interface {}''"
| "type_name (VMap m) = ''map[string]interface {}''"

text \<open>
  \<open>Format\<close> returns the rendering and the error, and leaves the formatter changed; \<open>None\<close>
  is a panic.
\<close>

definition Format ::
  "('f val \<Rightarrow> string) \<Rightarrow> 'f delta list \<Rightarrow> 'f AsciiFormatter
     \<Rightarrow> ((string \<times> error option) \<times> 'f AsciiFormatter) option" where
  "Format gosyntax diff f =
     (let f = f\<lparr>f_buffer := [], f_path := [], f_size := [], f_inArray := []\<rparr>
      in case f_left f of
           VMap v \<Rightarrow> do {
             f \<leftarrow> formatObject gosyntax v diff f;
             Some ((f_buffer f, None), f)
           }
         | VSlice v \<Rightarrow> do {
             f \<leftarrow> formatArray gosyntax v diff f;
             Some ((f_buffer f, None), f)
           }
         | _ \<Rightarrow>
             Some (([], Some (ErrorString
                      (''expected map[string]interface{} or []interface{}, got '' @ type_name (f_left f)))), f))"

text \<open>The rendering alone.\<close>

definition render :: "('f val \<Rightarrow> string) \<Rightarrow> AsciiFormatterConfig \<Rightarrow> 'f val \<Rightarrow> 'f delta list \<Rightarrow> (string \<times> error option) option" where
  "render gosyntax config left diff =
     map_option fst (Format gosyntax diff (NewAsciiFormatter left config))"

text \<open>
  A printer of scalars for the examples: Go prints an \<^verbatim>\<open>int\<close> in decimal and a
  \<^verbatim>\<open>bool\<close> as \<^verbatim>\<open>true\<close> or \<^verbatim>\<open>false\<close>.
\<close>

definition gosyntax_example :: "unit val \<Rightarrow> string" where
  "gosyntax_example v =
     (case v of VInt i \<Rightarrow> Itoa i | VBool b \<Rightarrow> (if b then ''true'' else ''false'') | _ \<Rightarrow> [])"

subsection \<open>What a line of the rendering looks like\<close>

text \<open>
  The text of one line as \<open>closeLine\<close> writes it, the label \<open>printKey\<close> writes, the text
  \<open>printValue\<close> writes for a value that is neither an object nor an array, and the comma
  \<open>printComma\<close> writes when siblings remain.
\<close>

fun is_container :: "'f val \<Rightarrow> bool" where
  "is_container (VMap m) = True"
| "is_container (VSlice s) = True"
| "is_container _ = False"





text \<open>A formatter inside the root object of a document with two members.\<close>

definition in_object :: "unit AsciiFormatter" where
  "in_object =
     push ''ROOT'' 2 False
       (NewAsciiFormatter (VMap [(''a'', VString ''x''), (''b'', VString ''y'')])
          AsciiFormatterDefaultConfig)"

section \<open>Properties of the version store\<close>




subsection \<open>Restore\<close>

lemma map_index_assign_same: "map_index (map_assign k v m) k = v"
  by (auto simp: map_index_def map_assign_def update_conv' map_of_eq_None_iff[symmetric] simp del: map_of_eq_None_iff split: option.splits)

lemma map_index_assign_other: "k' \<noteq> k \<Longrightarrow> map_index (map_assign k v m) k' = map_index m k'"
  by (auto simp: map_index_def map_assign_def update_conv' split: option.splits)

text \<open>
  C1. A successful \<open>RestoreDashboardVersion\<close> appends exactly one version row: its parent
  version and its restored-from version are the target version, its version number is
  the number \<open>getMaxVersion\<close> computed, its message is empty and its payload is the payload
  of the returned dashboard. That payload is the target row's payload as
  \<open>getDashboardVersion\<close> hands it over (the document id written under \<open>''id''\<close>), with
  \<open>''version''\<close> set to the new number and \<open>''restoredFrom''\<close> to the target version. The
  returned dashboard is the new state of the live row.
\<close>

theorem RestoreDashboardVersion_inserts:
  assumes "RestoreDashboardVersion clock cmd s = (Inr d, s')"
  shows "\<exists>target next.
     find (\<lambda>v. v_DashboardId v = r_DashboardId cmd \<and> v_Version v = r_Version cmd) (dashboard_versions s) = Some target \<and>
     getMaxVersion s (r_DashboardId cmd) = Inr next \<and>
     d_Data d = json_Set ''restoredFrom'' (VInt (r_Version cmd))
                  (json_Set ''version'' (VInt next)
                    (json_Set ''id'' (VInt64 (r_DashboardId cmd)) (v_Data target))) \<and>
     (case v_Data target of
        VMap m \<Rightarrow> (\<exists>m'. d_Data d = VMap m' \<and> map_index m' ''version'' = VInt next \<and>
                      map_index m' ''restoredFrom'' = VInt (r_Version cmd))
      | _ \<Rightarrow> d_Data d = v_Data target) \<and>
     d_Id d = r_DashboardId cmd \<and> d_Version d = next \<and>
     d_Updated d = fst clock \<and> d_UpdatedBy d = r_UserId cmd \<and>
     dashboard_versions s' = dashboard_versions s @
       [\<lparr>v_DashboardId = r_DashboardId cmd, v_ParentVersion = r_Version cmd,
         v_RestoredFrom = r_Version cmd, v_Version = next, v_Created = snd clock,
         v_CreatedBy = r_UserId cmd, v_Message = [], v_Data = d_Data d\<rparr>] \<and>
     dashboards s' = map (\<lambda>r. if d_Id r = r_DashboardId cmd then d else r) (dashboards s)"
proof -
  from assms obtain target where t: "getDashboardVersion s (r_DashboardId cmd) (r_Version cmd) = Inr target"
    by (auto simp: RestoreDashboardVersion_def inTransaction_def restoreCallback_def split: sum.splits)
  from assms t obtain live where l: "getDashboard s (r_DashboardId cmd) = Inr live"
    by (auto simp: RestoreDashboardVersion_def inTransaction_def restoreCallback_def split: sum.splits)
  from assms t l obtain nxt where n: "getMaxVersion s (d_Id live) = Inr nxt"
    by (auto simp: RestoreDashboardVersion_def inTransaction_def restoreCallback_def split: sum.splits)
  from t obtain row where r: "find (\<lambda>v. v_DashboardId v = r_DashboardId cmd \<and> v_Version v = r_Version cmd) (dashboard_versions s) = Some row"
     and tr: "target = row\<lparr>v_Data := json_Set ''id'' (VInt64 (v_DashboardId row)) (v_Data row)\<rparr>"
    by (auto simp: getDashboardVersion_def Get_version_def split: option.splits)
  from r have rid: "v_DashboardId row = r_DashboardId cmd"
    by (auto simp: find_Some_iff)
  from l have lid: "d_Id live = r_DashboardId cmd"
    by (auto simp: getDashboard_def Get_dashboard_def find_Some_iff split: option.splits)
  define nd where "nd = live\<lparr>d_Updated := fst clock, d_UpdatedBy := r_UserId cmd, d_Version := nxt,
       d_Data := json_Set ''restoredFrom'' (VInt (r_Version cmd))
                  (json_Set ''version'' (VInt nxt) (v_Data target))\<rparr>"
  have cb: "restoreCallback clock cmd s = updateAndInsert (snd clock) cmd nd s"
    using t l n by (simp add: restoreCallback_def nd_def Let_def)
  with assms have ui: "updateAndInsert (snd clock) cmd nd s = Inr (d, s')"
    by (auto simp: RestoreDashboardVersion_def inTransaction_def split: sum.splits)
  then have dd: "d = nd"
    by (auto simp: updateAndInsert_def Update_dashboard_def Insert_version_def Let_def split: if_splits)
  from ui have s': "dashboard_versions s' = dashboard_versions s @
       [\<lparr>v_DashboardId = d_Id nd, v_ParentVersion = r_Version cmd,
         v_RestoredFrom = r_Version cmd, v_Version = d_Version nd, v_Created = snd clock,
         v_CreatedBy = d_UpdatedBy nd, v_Message = [], v_Data = d_Data nd\<rparr>]"
     and ds': "dashboards s' = map (\<lambda>r. if d_Id r = d_Id nd then nd else r) (dashboards s)"
    by (auto simp: updateAndInsert_def Update_dashboard_def Insert_version_def Let_def split: if_splits)
  have fields: "d_Id nd = r_DashboardId cmd" "d_Version nd = nxt" "d_Updated nd = fst clock" "d_UpdatedBy nd = r_UserId cmd"
    using lid by (simp_all add: nd_def)
  have data: "d_Data nd = json_Set ''restoredFrom'' (VInt (r_Version cmd))
                  (json_Set ''version'' (VInt nxt) (json_Set ''id'' (VInt64 (r_DashboardId cmd)) (v_Data row)))"
    using tr rid by (simp add: nd_def)
  have shape: "(case v_Data row of
        VMap m \<Rightarrow> (\<exists>m'. d_Data nd = VMap m' \<and> map_index m' ''version'' = VInt nxt \<and>
                      map_index m' ''restoredFrom'' = VInt (r_Version cmd))
      | _ \<Rightarrow> d_Data nd = v_Data row)"
    unfolding data
    by (cases "v_Data row") (simp_all add: json_Set_def map_index_assign_same map_index_assign_other)
  show ?thesis
    using r n lid data shape fields s' ds' dd by auto
qed


theorem RestoreDashboardVersion_inserts_witness:
  "\<exists>d s'. RestoreDashboardVersion (200, 201) cmd_7_1 store_7 = (Inr d, s') \<and>
     d_Version d = 4 \<and>
     v_Version (last (dashboard_versions s')) = 4 \<and>
     v_ParentVersion (last (dashboard_versions s')) = 1 \<and>
     v_RestoredFrom (last (dashboard_versions s')) = 1 \<and>
     v_Message (last (dashboard_versions s')) = [] \<and>
     v_Data (last (dashboard_versions s')) = d_Data d"
proof -
  obtain d s' where h: "RestoreDashboardVersion (200, 201) cmd_7_1 store_7 = (Inr d, s')"
    by (simp add: RestoreDashboardVersion_def inTransaction_def restoreCallback_def
        getDashboardVersion_def Get_version_def getDashboard_def Get_dashboard_def
        getMaxVersion_def Get_max_version_def versions_of_def int_incr_def
        updateAndInsert_def Update_dashboard_def Insert_version_def Let_def
        store_7_def cmd_7_1_def)
  have m: "getMaxVersion store_7 (r_DashboardId cmd_7_1) = Inr 4"
    by (simp add: getMaxVersion_def Get_max_version_def versions_of_def int_incr_def
        store_7_def cmd_7_1_def)
  from RestoreDashboardVersion_inserts [OF h] obtain nxt where
    n: "getMaxVersion store_7 (r_DashboardId cmd_7_1) = Inr nxt" "d_Version d = nxt"
    and v: "dashboard_versions s' = dashboard_versions store_7 @
       [\<lparr>v_DashboardId = r_DashboardId cmd_7_1, v_ParentVersion = r_Version cmd_7_1,
         v_RestoredFrom = r_Version cmd_7_1, v_Version = nxt, v_Created = snd (200::int, 201::int),
         v_CreatedBy = r_UserId cmd_7_1, v_Message = [], v_Data = d_Data d\<rparr>]"
    by blast
  from n m have "nxt = 4" by simp
  with h n v show ?thesis by (simp add: cmd_7_1_def)
qed

lemma versions_of_Update:
  "Update_dashboard s i d = Inr (n, s1) \<Longrightarrow> versions_of s1 j = versions_of s j"
  by (auto simp: Update_dashboard_def versions_of_def)

lemma inTransaction_rollback: "inTransaction f s = (Inl err, s') \<Longrightarrow> s' = s"
  by (auto simp: inTransaction_def split: sum.splits)

text \<open>
  C2, as amended. When the update matches no row, the step fails with
  \<open>ErrDashboardNotFound\<close>; when the update matches and the version number is taken, it
  fails with the error of the store. Whenever the step, or the whole restore, fails, the
  store is the one it started from.
\<close>

theorem updateAndInsert_all_or_nothing:
  "(filter (\<lambda>r. d_Id r = d_Id dashboard) (dashboards s) = [] \<longrightarrow>
      inTransaction (updateAndInsert created cmd dashboard) s = (Inl ErrDashboardNotFound, s)) \<and>
   (filter (\<lambda>r. d_Id r = d_Id dashboard) (dashboards s) \<noteq> [] \<and>
    d_Version dashboard \<in> set (versions_of s (d_Id dashboard)) \<longrightarrow>
      (\<exists>msg. inTransaction (updateAndInsert created cmd dashboard) s = (Inl (StoreError msg), s))) \<and>
   (\<forall>err s'. inTransaction (updateAndInsert created cmd dashboard) s = (Inl err, s') \<longrightarrow> s' = s) \<and>
   (\<forall>clock err s'. RestoreDashboardVersion clock cmd s = (Inl err, s') \<longrightarrow> s' = s)"
proof (intro conjI impI allI)
  assume "filter (\<lambda>r. d_Id r = d_Id dashboard) (dashboards s) = []"
  then show "inTransaction (updateAndInsert created cmd dashboard) s = (Inl ErrDashboardNotFound, s)"
    by (simp add: inTransaction_def updateAndInsert_def Update_dashboard_def)
next
  assume a: "filter (\<lambda>r. d_Id r = d_Id dashboard) (dashboards s) \<noteq> [] \<and>
    d_Version dashboard \<in> set (versions_of s (d_Id dashboard))"
  obtain n s1 where u: "Update_dashboard s (d_Id dashboard) dashboard = Inr (n, s1)"
    by (simp add: Update_dashboard_def)
  have n: "n \<noteq> 0" using a u by (auto simp: Update_dashboard_def)
  have v: "versions_of s1 (d_Id dashboard) = versions_of s (d_Id dashboard)"
    using u by (rule versions_of_Update)
  show "\<exists>msg. inTransaction (updateAndInsert created cmd dashboard) s = (Inl (StoreError msg), s)"
    using a u n v by (simp add: inTransaction_def updateAndInsert_def Insert_version_def Let_def)
next
  fix err s'
  assume "inTransaction (updateAndInsert created cmd dashboard) s = (Inl err, s')"
  then show "s' = s" by (rule inTransaction_rollback)
next
  fix clock err s'
  assume "RestoreDashboardVersion clock cmd s = (Inl err, s')"
  then show "s' = s" unfolding RestoreDashboardVersion_def by (rule inTransaction_rollback)
qed

theorem updateAndInsert_all_or_nothing_witness:
  "filter (\<lambda>r. d_Id r = d_Id dashboard_8) (dashboards store_7) = [] \<and>
   inTransaction (updateAndInsert 201 cmd_7_1 dashboard_8) store_7 = (Inl ErrDashboardNotFound, store_7) \<and>
   filter (\<lambda>r. d_Id r = d_Id dashboard_7_dup) (dashboards store_7) \<noteq> [] \<and>
   d_Version dashboard_7_dup \<in> set (versions_of store_7 (d_Id dashboard_7_dup)) \<and>
   (\<exists>msg. inTransaction (updateAndInsert 201 cmd_7_1 dashboard_7_dup) store_7 = (Inl (StoreError msg), store_7))"
  using updateAndInsert_all_or_nothing [of dashboard_8 store_7 201 cmd_7_1]
    updateAndInsert_all_or_nothing [of dashboard_7_dup store_7 201 cmd_7_1]
  by (simp add: dashboard_8_def dashboard_7_dup_def store_7_def versions_of_def)

text \<open>
  C2, as stated, fails: an update that matches no row is reported as
  \<open>ErrDashboardNotFound\<close>, a not-found failure and no conflict.
\<close>

theorem updateAndInsert_zero_rows_counterexample:
  "filter (\<lambda>r. d_Id r = d_Id dashboard_8) (dashboards store_7) = [] \<and>
   inTransaction (updateAndInsert 201 cmd_7_1 dashboard_8) store_7 = (Inl ErrDashboardNotFound, store_7) \<and>
   failure_class ErrDashboardNotFound \<noteq> Conflict"
  by (simp add: inTransaction_def updateAndInsert_def Update_dashboard_def dashboard_8_def store_7_def)


section \<open>Properties of the ASCII formatter\<close>

lemmas ascii_defs = render_def Format_def NewAsciiFormatter_def AsciiFormatterDefaultConfig_def
     formatObject_def formatArray_def addLineWith_def closeLine_def push_def pop_def AsciiSame_def
     processObject.simps processObject_names.simps processItem.simps processItem_matched.simps
     processArray.simps processArray_items.simps size_top_def set_size_top_def
     sortedKeys_def searchDeltas_def map_index_def printRecursive.simps newLine_def printKey_def
     print_def printValue_def printComma_def gosyntax_example_def Itoa_def digits.simps
     AsciiStyles_def AsciiAdded_def AsciiDeleted_def newline_def dquote_def

text \<open>
  C10. When the left-hand value is neither an object nor an array, \<open>Format\<close> returns the
  empty string and the error that names the two expected types and the type it got; and
  when \<open>Format\<close> returns without an error, the left-hand value is an object or an array.
\<close>

theorem Format_root_container:
  "(\<not> is_container (f_left f) \<longrightarrow>
      (\<exists>f'. Format gosyntax diff f =
         Some (([], Some (ErrorString (''expected map[string]interface{} or []interface{}, got ''
                                        @ type_name (f_left f)))), f'))) \<and>
   (\<forall>res f'. Format gosyntax diff f = Some ((res, None), f') \<longrightarrow> is_container (f_left f))"
  by (cases "f_left f") (auto simp: Format_def Let_def)

theorem Format_root_container_witness:
  "\<not> is_container (f_left (NewAsciiFormatter (VString ''x'' :: unit val) AsciiFormatterDefaultConfig)) \<and>
   (\<exists>f'. Format gosyntax_example [] (NewAsciiFormatter (VString ''x'') AsciiFormatterDefaultConfig) =
      Some (([], Some (ErrorString ''expected map[string]interface{} or []interface{}, got string'')), f')) \<and>
   (\<exists>res f'. Format gosyntax_example [] (NewAsciiFormatter (VMap []) AsciiFormatterDefaultConfig) =
      Some ((res, None), f')) \<and>
   is_container (f_left (NewAsciiFormatter (VMap [] :: unit val) AsciiFormatterDefaultConfig))"
proof -
  have ok: "Format gosyntax_example [] (NewAsciiFormatter (VMap []) AsciiFormatterDefaultConfig) =
      Some (('' {'' @ [newline] @ '' }'' @ [newline], None),
            (NewAsciiFormatter (VMap []) AsciiFormatterDefaultConfig)
              \<lparr>f_buffer := '' {'' @ [newline] @ '' }'' @ [newline],
               f_line := Some \<lparr>l_marker = '' '', l_indent = 0, l_buffer = ''}''\<rparr>\<rparr>)"
    by (simp add: ascii_defs processObject_added.simps)
  show ?thesis
    using Format_root_container [of "NewAsciiFormatter (VString ''x'' :: unit val) AsciiFormatterDefaultConfig"
        gosyntax_example "[]"]
      Format_root_container [of "NewAsciiFormatter (VMap [] :: unit val) AsciiFormatterDefaultConfig"
        gosyntax_example "[]"] ok
    by (simp add: NewAsciiFormatter_def)
qed

text \<open>
  C3. The claim is that a delta of kind \<open>Object\<close> at a member that is not an object makes
  the rendering fail. \<open>processItem\<close> does return the error \<open>''Type mismatch''\<close>, but
  \<open>processObject\<close> drops it: on the object \<^verbatim>\<open>{"a": "x", "b": "y"}\<close> with an \<open>Object\<close>
  delta at \<open>a\<close>, \<open>Format\<close> returns no error and a rendering from which the member \<open>a\<close>
  is missing.
\<close>

theorem Format_type_mismatch_dropped:
  "processItem gosyntax_example (VString ''x'') [Object (Name ''a'') []] (Name ''a'') in_object =
     Some (Some (ErrorString ''Type mismatch''), in_object) \<and>
   render gosyntax_example AsciiFormatterDefaultConfig
     (VMap [(''a'', VString ''x''), (''b'', VString ''y'')]) [Object (Name ''a'') []] =
     Some ('' {'' @ [newline] @
           ''   '' @ [dquote] @ ''b'' @ [dquote] @ '': '' @ [dquote] @ ''y'' @ [dquote] @ '','' @ [newline] @
           '' }'' @ [newline], None)"
  by code_simp









end
